theory Spec2Isabelle
  imports Complex_Main
begin

section \<open>The self-attention block of lavis/models/blip_models/selfattention.py\<close>

text \<open>
  The file holds one class, \<open>SABlock\<close>, with a constructor and a \<open>forward\<close> method.
  Python integers are modelled as \<open>int\<close> (\<open>%\<close> and \<open>//\<close> are \<open>mod\<close> and \<open>div\<close>, both
  flooring, with the division by zero written out), Python floats and tensor entries as
  \<open>real\<close>: arithmetic is exact, rounding is not modelled. Exceptions are values of
  \<open>py_error\<close>, and a call that may raise returns \<open>py_error + 'a\<close>.
\<close>

subsection \<open>Errors\<close>

datatype py_error =
    ValueError string
  | ZeroDivisionError
  | IndexError
  | RuntimeError
  | EinopsError

definition ebind :: "py_error + 'a \<Rightarrow> ('a \<Rightarrow> py_error + 'b) \<Rightarrow> py_error + 'b" where
  "ebind m f = (case m of Inl e \<Rightarrow> Inl e | Inr v \<Rightarrow> f v)"

definition py_mod :: "int \<Rightarrow> int \<Rightarrow> py_error + int" where
  "py_mod a b = (if b = 0 then Inl ZeroDivisionError else Inr (a mod b))"

definition py_floordiv :: "int \<Rightarrow> int \<Rightarrow> py_error + int" where
  "py_floordiv a b = (if b = 0 then Inl ZeroDivisionError else Inr (a div b))"

text \<open>
  \<open>d ** -0.5\<close> on a Python integer: zero raises, a negative base gives a complex number
  (no exception), a positive base the float \<open>d\<close> to the power \<open>-1/2\<close>.
\<close>

datatype py_number = PyFloat real | PyComplex

definition py_pow_neg_half :: "int \<Rightarrow> py_error + py_number" where
  "py_pow_neg_half d =
     (if d = 0 then Inl ZeroDivisionError
      else if d < 0 then Inr PyComplex
      else Inr (PyFloat (real_of_int d powr (- (1 / 2)))))"

subsection \<open>Tensors and the library calls the class makes\<close>

text \<open>
  A tensor is its shape and its entries, read by index. The operations below are the
  torch and einops calls of the source, each modelled from its documented meaning, with
  the shapes it refuses as errors (\<open>EinopsError\<close> is einops' own subclass of
  \<open>RuntimeError\<close>).
\<close>

record tensor =
  shape :: "nat list"
  elem :: "nat list \<Rightarrow> real"

text \<open>\<open>torch.Tensor()\<close>: the empty tensor, one axis of length 0.\<close>

definition torch_Tensor :: tensor where
  "torch_Tensor = \<lparr>shape = [0], elem = (\<lambda>idx. 0)\<rparr>"

text \<open>
  \<open>nn.Linear(in_features, out_features, bias)\<close>. The constructor allocates a weight of
  shape \<open>[out_features, in_features]\<close>, which torch refuses for a negative size; the
  values the initialiser draws are a parameter of the model. A call computes
  \<open>x W\<^sup>T + b\<close> over the last axis.
\<close>

record nn_linear =
  in_features :: nat
  out_features :: nat
  weight :: "nat \<Rightarrow> nat \<Rightarrow> real"
  bias :: "(nat \<Rightarrow> real) option"

definition nn_Linear ::
  "int \<Rightarrow> int \<Rightarrow> bool \<Rightarrow> (nat \<Rightarrow> nat \<Rightarrow> real) \<Rightarrow> (nat \<Rightarrow> real) \<Rightarrow> py_error + nn_linear" where
  "nn_Linear n_in n_out has_bias w b =
     (if n_in < 0 \<or> n_out < 0 then Inl RuntimeError
      else Inr \<lparr>in_features = nat n_in, out_features = nat n_out, weight = w,
                bias = (if has_bias then Some b else None)\<rparr>)"

definition Linear_forward :: "nn_linear \<Rightarrow> tensor \<Rightarrow> py_error + tensor" where
  "Linear_forward L x =
     (if shape x = [] then Inl RuntimeError
      else if last (shape x) = in_features L then
        Inr \<lparr>shape = butlast (shape x) @ [out_features L],
             elem = (\<lambda>idx. (\<Sum>i<in_features L. elem x (butlast idx @ [i]) * weight L (last idx) i)
                          + (case bias L of None \<Rightarrow> 0 | Some b \<Rightarrow> b (last idx)))\<rparr>
      else Inl RuntimeError)"

text \<open>
  \<open>nn.Dropout(p)\<close> refuses a rate outside \<open>[0, 1]\<close>. A call in training mode keeps each
  entry with probability \<open>1 - p\<close> and rescales it by \<open>1 / (1 - p)\<close>; in evaluation mode,
  or with \<open>p = 0\<close>, it returns its input. The random draw is the parameter \<open>keep\<close>.
\<close>

definition nn_Dropout :: "real \<Rightarrow> py_error + real" where
  "nn_Dropout p =
     (if p < 0 \<or> 1 < p then Inl (ValueError ''dropout probability has to be between 0 and 1'')
      else Inr p)"

definition dropout :: "real \<Rightarrow> bool \<Rightarrow> (nat list \<Rightarrow> bool) \<Rightarrow> tensor \<Rightarrow> tensor" where
  "dropout p train keep t =
     (if train \<and> p \<noteq> 0 then
        (if p = 1 then \<lparr>shape = shape t, elem = (\<lambda>idx. 0)\<rparr>
         else \<lparr>shape = shape t, elem = (\<lambda>idx. if keep idx then elem t idx / (1 - p) else 0)\<rparr>)
      else t)"

text \<open>
  \<open>Rearrange("b h (qkv l d) -> qkv b l h d", qkv=3, l=num_heads)\<close>: the input has three
  axes, the last one splits into \<open>3 * l * d\<close>. An axis length \<open>l \<le> 0\<close> admits no
  reshape.
\<close>

definition input_rearrange :: "int \<Rightarrow> tensor \<Rightarrow> py_error + tensor" where
  "input_rearrange l x =
     (case shape x of
        [b, h, c] \<Rightarrow>
          (if l \<le> 0 then Inl RuntimeError
           else if c mod (3 * nat l) = 0 then
             (let d = c div (3 * nat l) in
              Inr \<lparr>shape = [3, b, nat l, h, d],
                   elem = (\<lambda>idx. case idx of
                              [j, bi, li, hi, di] \<Rightarrow> elem x [bi, hi, (j * nat l + li) * d + di]
                            | _ \<Rightarrow> 0)\<rparr>)
           else Inl EinopsError)
      | _ \<Rightarrow> Inl EinopsError)"

text \<open>\<open>t[i]\<close>: indexing the first axis.\<close>

definition getitem :: "tensor \<Rightarrow> nat \<Rightarrow> py_error + tensor" where
  "getitem t i =
     (case shape t of
        [] \<Rightarrow> Inl IndexError
      | n # sh \<Rightarrow> if i < n then Inr \<lparr>shape = sh, elem = (\<lambda>idx. elem t (i # idx))\<rparr>
                  else Inl IndexError)"

text \<open>
  \<open>torch.einsum("blxd,blyd->blxy", q, k)\<close> and \<open>torch.einsum("bhxy,bhyd->bhxd", a, v)\<close>:
  the repeated letter is summed over. Both operands always have equal sizes on the
  shared axes here; other sizes are refused.
\<close>

definition einsum_blxd_blyd :: "tensor \<Rightarrow> tensor \<Rightarrow> py_error + tensor" where
  "einsum_blxd_blyd q k =
     (case shape q of
        [b, l, x, d] \<Rightarrow>
          (case shape k of
             [b', l', y, d'] \<Rightarrow>
               (if b = b' \<and> l = l' \<and> d = d' then
                  Inr \<lparr>shape = [b, l, x, y],
                       elem = (\<lambda>idx. case idx of
                                  [bi, li, xi, yi] \<Rightarrow>
                                    (\<Sum>di<d. elem q [bi, li, xi, di] * elem k [bi, li, yi, di])
                                | _ \<Rightarrow> 0)\<rparr>
                else Inl RuntimeError)
           | _ \<Rightarrow> Inl RuntimeError)
      | _ \<Rightarrow> Inl RuntimeError)"

definition einsum_bhxy_bhyd :: "tensor \<Rightarrow> tensor \<Rightarrow> py_error + tensor" where
  "einsum_bhxy_bhyd a v =
     (case shape a of
        [b, h, x, y] \<Rightarrow>
          (case shape v of
             [b', h', y', d] \<Rightarrow>
               (if b = b' \<and> h = h' \<and> y = y' then
                  Inr \<lparr>shape = [b, h, x, d],
                       elem = (\<lambda>idx. case idx of
                                  [bi, hi, xi, di] \<Rightarrow>
                                    (\<Sum>yi<y. elem a [bi, hi, xi, yi] * elem v [bi, hi, yi, di])
                                | _ \<Rightarrow> 0)\<rparr>
                else Inl RuntimeError)
           | _ \<Rightarrow> Inl RuntimeError)
      | _ \<Rightarrow> Inl RuntimeError)"

text \<open>\<open>t * c\<close> for a float \<open>c\<close>, and \<open>t.softmax(dim=-1)\<close>.\<close>

definition mul_scalar :: "tensor \<Rightarrow> real \<Rightarrow> tensor" where
  "mul_scalar t c = \<lparr>shape = shape t, elem = (\<lambda>idx. elem t idx * c)\<rparr>"

definition softmax_last :: "tensor \<Rightarrow> tensor" where
  "softmax_last t =
     \<lparr>shape = shape t,
      elem = (\<lambda>idx. exp (elem t idx) / (\<Sum>j<last (shape t). exp (elem t (butlast idx @ [j]))))\<rparr>"

text \<open>
  \<open>F.scaled_dot_product_attention(query, key, value, attn_mask=None, scale, dropout_p,
  is_causal=False)\<close>, as torch documents it:
  \<^verbatim>\<open>
    attn_weight = query @ key.transpose(-2, -1) * scale_factor
    attn_weight = torch.softmax(attn_weight, dim=-1)
    attn_weight = torch.dropout(attn_weight, dropout_p, train=True)
    return attn_weight @ value
  \<close>
  The dropout is applied whatever the mode of the calling module.
\<close>

definition transpose_last2 :: "tensor \<Rightarrow> py_error + tensor" where
  "transpose_last2 t =
     (case shape t of
        [b, h, m, n] \<Rightarrow>
          Inr \<lparr>shape = [b, h, n, m],
               elem = (\<lambda>idx. case idx of [bi, hi, i, j] \<Rightarrow> elem t [bi, hi, j, i] | _ \<Rightarrow> 0)\<rparr>
      | _ \<Rightarrow> Inl RuntimeError)"

definition matmul :: "tensor \<Rightarrow> tensor \<Rightarrow> py_error + tensor" where
  "matmul s t =
     (case shape s of
        [b, h, m, n] \<Rightarrow>
          (case shape t of
             [b', h', n', p] \<Rightarrow>
               (if b = b' \<and> h = h' \<and> n = n' then
                  Inr \<lparr>shape = [b, h, m, p],
                       elem = (\<lambda>idx. case idx of
                                  [bi, hi, i, j] \<Rightarrow>
                                    (\<Sum>c<n. elem s [bi, hi, i, c] * elem t [bi, hi, c, j])
                                | _ \<Rightarrow> 0)\<rparr>
                else Inl RuntimeError)
           | _ \<Rightarrow> Inl RuntimeError)
      | _ \<Rightarrow> Inl RuntimeError)"

definition scaled_dot_product_attention ::
  "tensor \<Rightarrow> tensor \<Rightarrow> tensor \<Rightarrow> real \<Rightarrow> real \<Rightarrow> (nat list \<Rightarrow> bool) \<Rightarrow> py_error + tensor" where
  "scaled_dot_product_attention query key val scale_factor dropout_p keep =
     ebind (transpose_last2 key) (\<lambda>kT.
     ebind (matmul query kT) (\<lambda>qk.
       let attn_weight = mul_scalar qk scale_factor;
           attn_weight = softmax_last attn_weight;
           attn_weight = dropout dropout_p True keep attn_weight
       in matmul attn_weight val))"

text \<open>\<open>Rearrange("b h l d -> b l (h d)")\<close>: the heads are joined on the last axis.\<close>

definition out_rearrange :: "tensor \<Rightarrow> py_error + tensor" where
  "out_rearrange x =
     (case shape x of
        [b, h, l, d] \<Rightarrow>
          Inr \<lparr>shape = [b, l, h * d],
               elem = (\<lambda>idx. case idx of
                          [bi, li, j] \<Rightarrow> elem x [bi, j div d, li, j mod d]
                        | _ \<Rightarrow> 0)\<rparr>
      | _ \<Rightarrow> Inl EinopsError)"

subsection \<open>The block\<close>

text \<open>
  The fields \<open>__init__\<close> sets, and \<open>training\<close>, the mode flag every \<open>nn.Module\<close> has
  (set by \<open>super().__init__()\<close>, cleared by \<open>eval()\<close>). The two rearrangements hold no
  data but \<open>num_heads\<close>.
\<close>

record SABlock =
  num_heads :: int
  dim_head :: int
  inner_dim :: int
  out_proj :: nn_linear
  qkv :: nn_linear
  drop_output :: real
  drop_weights :: real
  dropout_rate :: real
  scale :: py_number
  save_attn :: bool
  att_mat :: tensor
  use_flash_attention :: bool
  training :: bool

text \<open>The values the two linear layers are initialised with.\<close>

record init_values =
  out_proj_weight :: "nat \<Rightarrow> nat \<Rightarrow> real"
  out_proj_bias :: "nat \<Rightarrow> real"
  qkv_weight :: "nat \<Rightarrow> nat \<Rightarrow> real"
  qkv_bias_values :: "nat \<Rightarrow> real"

definition SABlock_init ::
  "int \<Rightarrow> int \<Rightarrow> real \<Rightarrow> bool \<Rightarrow> bool \<Rightarrow> int option \<Rightarrow> init_values \<Rightarrow> py_error + SABlock" where
  "SABlock_init hidden_size n_heads p qkv_bias save dim_head_arg iv =
     (if \<not> (0 \<le> p \<and> p \<le> 1) then
        Inl (ValueError ''dropout_rate should be between 0 and 1.'')
      else
        ebind (py_mod hidden_size n_heads) (\<lambda>r.
        if r \<noteq> 0 then Inl (ValueError ''hidden size should be divisible by num_heads.'')
        else
          ebind (case dim_head_arg of
                   None \<Rightarrow> py_floordiv hidden_size n_heads
                 | Some d \<Rightarrow> Inr d) (\<lambda>dh.
          let inner = dh * n_heads in
          ebind (nn_Linear inner hidden_size True (out_proj_weight iv) (out_proj_bias iv)) (\<lambda>op.
          ebind (nn_Linear hidden_size (inner * 3) qkv_bias (qkv_weight iv) (qkv_bias_values iv))
            (\<lambda>qk.
          ebind (nn_Dropout p) (\<lambda>d_out.
          ebind (nn_Dropout p) (\<lambda>d_w.
          ebind (py_pow_neg_half dh) (\<lambda>sc.
          Inr \<lparr>num_heads = n_heads, dim_head = dh, inner_dim = inner,
               out_proj = op, qkv = qk,
               drop_output = d_out, drop_weights = d_w, dropout_rate = p,
               scale = sc, save_attn = save, att_mat = torch_Tensor,
               use_flash_attention = False, training = True\<rparr>))))))))"

text \<open>
  \<open>forward\<close>. Lines 74 and 75 are \<open>qkv_split\<close>, lines 88 and 89 (the attention
  weights of the manual path, before dropout) are \<open>manual_att_mat\<close>, and
  \<open>attention_weights\<close> is the two in a row, so that the weights can be spoken about. \<open>keep_w\<close> and \<open>keep_o\<close> are the random draws of the two dropout stages. The
  method assigns no field of \<open>self\<close>; the block is returned as it was. A complex
  \<open>scale\<close> belongs to a block with \<open>num_heads < 0\<close>, which never passes
  \<open>input_rearrange\<close>.
\<close>

definition qkv_split :: "SABlock \<Rightarrow> tensor \<Rightarrow> py_error + (tensor \<times> tensor \<times> tensor)" where
  "qkv_split self x =
     ebind (Linear_forward (qkv self) x) (\<lambda>y.
     ebind (input_rearrange (num_heads self) y) (\<lambda>output.
     ebind (getitem output 0) (\<lambda>q.
     ebind (getitem output 1) (\<lambda>k.
     ebind (getitem output 2) (\<lambda>v.
     Inr (q, k, v))))))"

definition scale_float :: "SABlock \<Rightarrow> py_error + real" where
  "scale_float self = (case scale self of PyFloat s \<Rightarrow> Inr s | PyComplex \<Rightarrow> Inl RuntimeError)"

definition manual_att_mat :: "SABlock \<Rightarrow> tensor \<Rightarrow> tensor \<Rightarrow> py_error + tensor" where
  "manual_att_mat self q k =
     ebind (einsum_blxd_blyd q k) (\<lambda>qk.
     ebind (scale_float self) (\<lambda>s.
     Inr (softmax_last (mul_scalar qk s))))"

definition attention_weights :: "SABlock \<Rightarrow> tensor \<Rightarrow> py_error + tensor" where
  "attention_weights self x =
     ebind (qkv_split self x) (\<lambda>(q, k, v). manual_att_mat self q k)"

definition forward ::
  "SABlock \<Rightarrow> (nat list \<Rightarrow> bool) \<times> (nat list \<Rightarrow> bool) \<Rightarrow> tensor \<Rightarrow> py_error + (tensor \<times> SABlock)" where
  "forward self rnd x =
     (case rnd of (keep_w, keep_o) \<Rightarrow>
     ebind (qkv_split self x) (\<lambda>(q, k, v).
     ebind (if use_flash_attention self then
              ebind (scale_float self) (\<lambda>s.
              scaled_dot_product_attention q k v s (dropout_rate self) keep_w)
            else
              ebind (manual_att_mat self q k) (\<lambda>att_mat0.
              let att_mat1 = dropout (drop_weights self) (training self) keep_w att_mat0
              in einsum_bhxy_bhyd att_mat1 v)) (\<lambda>x1.
     ebind (out_rearrange x1) (\<lambda>x2.
     ebind (Linear_forward (out_proj self) x2) (\<lambda>x3.
     let x4 = dropout (drop_output self) (training self) keep_o x3
     in Inr (x4, self))))))"

subsection \<open>Concrete inputs\<close>

text \<open>
  Initial values with every weight 1 and every bias 0, inputs of all ones (the shape
  \<open>[1, 3, 8]\<close> of the spec's scenario, the malformed \<open>[1, 3, 7]\<close>, and the smallest
  shape \<open>[1, 1, 1]\<close>), and the two constant dropout draws.
\<close>

definition iv_ones :: init_values where
  "iv_ones = \<lparr>out_proj_weight = (\<lambda>i j. 1), out_proj_bias = (\<lambda>i. 0),
              qkv_weight = (\<lambda>i j. 1), qkv_bias_values = (\<lambda>i. 0)\<rparr>"

definition x_ones :: tensor where
  "x_ones = \<lparr>shape = [1, 1, 1], elem = (\<lambda>idx. 1)\<rparr>"

definition x_scenario :: tensor where
  "x_scenario = \<lparr>shape = [1, 3, 8], elem = (\<lambda>idx. 1)\<rparr>"

definition x_wrong_dim :: tensor where
  "x_wrong_dim = \<lparr>shape = [1, 3, 7], elem = (\<lambda>idx. 1)\<rparr>"

definition keep_none :: "nat list \<Rightarrow> bool" where
  "keep_none idx = False"

definition keep_all :: "nat list \<Rightarrow> bool" where
  "keep_all idx = True"

section \<open>Properties\<close>

subsection \<open>Simplification set-up\<close>

lemma ebind_simps [simp]: "ebind (Inl e) f = Inl e" "ebind (Inr v) f = f v"
  by (simp_all add: ebind_def)

lemma ebind_eq_Inr: "ebind m f = Inr y \<longleftrightarrow> (\<exists>v. m = Inr v \<and> f v = Inr y)"
  by (cases m) simp_all

lemma map_sum_ebind: "map_sum id g (ebind m f) = ebind m (\<lambda>v. map_sum id g (f v))"
  by (cases m) simp_all

lemmas init_defs = SABlock_init_def py_mod_def py_floordiv_def nn_Linear_def nn_Dropout_def
  py_pow_neg_half_def

lemmas forward_defs = forward_def qkv_split_def Linear_forward_def input_rearrange_def getitem_def
  scale_float_def scaled_dot_product_attention_def transpose_last2_def matmul_def mul_scalar_def
  softmax_last_def dropout_def out_rearrange_def manual_att_mat_def einsum_blxd_blyd_def
  einsum_bhxy_bhyd_def

lemma shape_dropout [simp]: "shape (dropout p tr keep t) = shape t"
  by (simp add: dropout_def)

lemma shape_softmax_last [simp]: "shape (softmax_last t) = shape t"
  by (simp add: softmax_last_def)

lemma shape_mul_scalar [simp]: "shape (mul_scalar t c) = shape t"
  by (simp add: mul_scalar_def)

lemma dropout_zero [simp]: "dropout 0 tr keep t = t"
  by (simp add: dropout_def)

lemma dropout_eval [simp]: "dropout p False keep t = t"
  by (simp add: dropout_def)

lemma qkv_split_upd [simp]:
  "qkv_split (self\<lparr>training := tr\<rparr>) x = qkv_split self x"
  "qkv_split (self\<lparr>use_flash_attention := fl\<rparr>) x = qkv_split self x"
  by (simp_all add: qkv_split_def)

lemma scale_float_upd [simp]:
  "scale_float (self\<lparr>training := tr\<rparr>) = scale_float self"
  "scale_float (self\<lparr>use_flash_attention := fl\<rparr>) = scale_float self"
  by (simp_all add: scale_float_def)

lemma manual_att_mat_upd [simp]:
  "manual_att_mat (self\<lparr>training := tr\<rparr>) = manual_att_mat self"
  "manual_att_mat (self\<lparr>use_flash_attention := fl\<rparr>) = manual_att_mat self"
  by (simp_all add: manual_att_mat_def fun_eq_iff)

lemma length_three: "length xs = 3 \<Longrightarrow> \<exists>a b c. xs = [a, b, c]"
  by (cases xs; cases "tl xs"; cases "tl (tl xs)") auto

subsection \<open>The constructor\<close>

lemma SABlock_init_Inr:
  assumes "SABlock_init hs nh p qb sa dh iv = Inr blk"
  shows "0 \<le> p" "p \<le> 1" "nh \<noteq> 0" "hs mod nh = 0" "0 \<le> hs"
    "dim_head blk = (case dh of None \<Rightarrow> hs div nh | Some d \<Rightarrow> d)"
    "0 \<le> dim_head blk * nh" "dim_head blk \<noteq> 0"
    "blk = \<lparr>num_heads = nh, dim_head = dim_head blk, inner_dim = dim_head blk * nh,
       out_proj = \<lparr>in_features = nat (dim_head blk * nh), out_features = nat hs,
                   weight = out_proj_weight iv, bias = Some (out_proj_bias iv)\<rparr>,
       qkv = \<lparr>in_features = nat hs, out_features = nat (dim_head blk * nh * 3),
              weight = qkv_weight iv, bias = (if qb then Some (qkv_bias_values iv) else None)\<rparr>,
       drop_output = p, drop_weights = p, dropout_rate = p,
       scale = (if dim_head blk < 0 then PyComplex
                else PyFloat (real_of_int (dim_head blk) powr (- (1 / 2)))),
       save_attn = sa, att_mat = torch_Tensor, use_flash_attention = False, training = True\<rparr>"
  using assms
  by (auto simp: init_defs ebind_eq_Inr Let_def split: if_splits option.splits)

lemma SABlock_init_fields:
  assumes "SABlock_init hs nh p qb sa dh iv = Inr blk" and "0 < nh"
  shows "num_heads blk = nh" "in_features (qkv blk) = nat hs"
    "out_features (qkv blk) = 3 * nat nh * nat (dim_head blk)"
    "in_features (out_proj blk) = nat nh * nat (dim_head blk)"
    "out_features (out_proj blk) = nat hs"
    "scale blk = PyFloat (real_of_int (dim_head blk) powr (- (1 / 2)))"
proof -
  note f = SABlock_init_Inr [OF assms(1)]
  from f(7) assms(2) have nonneg: "0 \<le> dim_head blk"
    by (simp add: zero_le_mult_iff)
  show "num_heads blk = nh" by (subst f(9)) simp
  show "in_features (qkv blk) = nat hs" by (subst f(9)) simp
  show "out_features (out_proj blk) = nat hs" by (subst f(9)) simp
  have "out_features (qkv blk) = nat (dim_head blk * nh * 3)" by (subst f(9)) simp
  then show "out_features (qkv blk) = 3 * nat nh * nat (dim_head blk)"
    using nonneg assms(2) by (simp add: nat_mult_distrib mult.commute)
  have "in_features (out_proj blk) = nat (dim_head blk * nh)" by (subst f(9)) simp
  then show "in_features (out_proj blk) = nat nh * nat (dim_head blk)"
    using nonneg assms(2) by (simp add: nat_mult_distrib mult.commute)
  have "scale blk = (if dim_head blk < 0 then PyComplex
                else PyFloat (real_of_int (dim_head blk) powr (- (1 / 2))))"
    by (subst f(9)) simp
  then show "scale blk = PyFloat (real_of_int (dim_head blk) powr (- (1 / 2)))"
    using nonneg by simp
qed

lemma SABlock_init_rates:
  assumes "SABlock_init hs nh p qb sa dh iv = Inr blk"
  shows "drop_output blk = p" "drop_weights blk = p" "dropout_rate blk = p"
  by (subst SABlock_init_Inr(9) [OF assms], simp)+

text \<open>
  C10. With \<open>num_heads = 0\<close> the constructor raises the division-by-zero error of
  \<open>hidden_size % num_heads\<close>, for every \<open>hidden_size\<close>, and not the validation error;
  the check of the dropout rate runs before, so a rate outside \<open>[0, 1]\<close> raises its
  \<open>ValueError\<close> instead.
\<close>

theorem SABlock_init_zero_heads:
  "SABlock_init hs 0 p qb sa dh iv =
     (if 0 \<le> p \<and> p \<le> 1 then Inl ZeroDivisionError
      else Inl (ValueError ''dropout_rate should be between 0 and 1.''))"
  by (simp add: SABlock_init_def py_mod_def)

theorem SABlock_init_zero_heads_witness:
  "SABlock_init 8 0 0 False False None iv_ones = Inl ZeroDivisionError
   \<and> SABlock_init 8 0 2 False False (Some 4) iv_ones
       = Inl (ValueError ''dropout_rate should be between 0 and 1.'')"
  using SABlock_init_zero_heads [of 8 0 False False None iv_ones]
    SABlock_init_zero_heads [of 8 2 False False "Some 4" iv_ones]
  by simp

text \<open>
  C8. The constructor raises \<open>ValueError\<close> whenever the dropout rate is outside
  \<open>[0, 1]\<close>, whatever the other arguments; and for a rate in \<open>[0, 1]\<close> it returns a
  block with that rate, given valid dimensions: \<open>hidden_size\<close> and \<open>num_heads\<close> positive,
  \<open>hidden_size\<close> divisible by \<open>num_heads\<close>, and \<open>dim_head\<close>, where given, positive.
\<close>

theorem SABlock_init_dropout_range:
  "(\<not> (0 \<le> p \<and> p \<le> 1) \<longrightarrow>
      SABlock_init hs nh p qb sa dh iv = Inl (ValueError ''dropout_rate should be between 0 and 1.''))
   \<and> (0 \<le> p \<and> p \<le> 1 \<and> 0 < hs \<and> 0 < nh \<and> hs mod nh = 0 \<and> (\<forall>d. dh = Some d \<longrightarrow> 0 < d) \<longrightarrow>
      (\<exists>blk. SABlock_init hs nh p qb sa dh iv = Inr blk \<and> dropout_rate blk = p))"
proof (intro conjI impI)
  assume "\<not> (0 \<le> p \<and> p \<le> 1)"
  then show "SABlock_init hs nh p qb sa dh iv
      = Inl (ValueError ''dropout_rate should be between 0 and 1.'')"
    by (simp add: SABlock_init_def)
next
  assume a: "0 \<le> p \<and> p \<le> 1 \<and> 0 < hs \<and> 0 < nh \<and> hs mod nh = 0 \<and> (\<forall>d. dh = Some d \<longrightarrow> 0 < d)"
  have div_pos: "0 < hs div nh"
  proof -
    from a have "nh dvd hs" by (simp add: dvd_eq_mod_eq_0)
    with a have "nh \<le> hs" by (simp add: zdvd_imp_le)
    with a show ?thesis by (simp add: pos_imp_zdiv_pos_iff)
  qed
  show "\<exists>blk. SABlock_init hs nh p qb sa dh iv = Inr blk \<and> dropout_rate blk = p"
  proof (cases dh)
    case None
    with a div_pos show ?thesis
      by (simp add: init_defs Let_def mult_less_0_iff not_less [symmetric])
  next
    case (Some d)
    with a have "0 < d" by simp
    with a Some show ?thesis
      by (simp add: init_defs Let_def mult_less_0_iff)
  qed
qed

theorem SABlock_init_dropout_range_witness:
  "SABlock_init 8 2 (3 / 2) False False None iv_ones
     = Inl (ValueError ''dropout_rate should be between 0 and 1.'')
   \<and> (\<exists>blk. SABlock_init 8 2 (1 / 2) False False None iv_ones = Inr blk
          \<and> dropout_rate blk = 1 / 2)"
  using SABlock_init_dropout_range [of "3 / 2" 8 2 False False None iv_ones]
    SABlock_init_dropout_range [of "1 / 2" 8 2 False False None iv_ones]
  by simp

text \<open>
  C2, as the code has it. The divisibility check of line 53 does not look at
  \<open>dim_head\<close>: with a dropout rate in \<open>[0, 1]\<close> and \<open>num_heads \<noteq> 0\<close>, the constructor
  raises \<open>ValueError\<close> if and only if \<open>hidden_size\<close> is not divisible by \<open>num_heads\<close>,
  whether or not \<open>dim_head\<close> is given, and the error is then the divisibility one.
\<close>

theorem SABlock_init_divisibility:
  assumes "0 \<le> p" "p \<le> 1" "nh \<noteq> 0"
  shows "((\<exists>msg. SABlock_init hs nh p qb sa dh iv = Inl (ValueError msg)) \<longleftrightarrow> hs mod nh \<noteq> 0)
    \<and> (hs mod nh \<noteq> 0 \<longrightarrow> SABlock_init hs nh p qb sa dh iv
          = Inl (ValueError ''hidden size should be divisible by num_heads.''))"
  using assms
  by (auto simp: init_defs Let_def ebind_def split: option.splits sum.splits if_splits)

theorem SABlock_init_divisibility_witness:
  "(\<exists>msg. SABlock_init 10 3 0 False False None iv_ones = Inl (ValueError msg))
   \<and> SABlock_init 10 3 0 False False None iv_ones
       = Inl (ValueError ''hidden size should be divisible by num_heads.'')
   \<and> \<not> (\<exists>msg. SABlock_init 8 2 0 False False (Some 3) iv_ones = Inl (ValueError msg))"
  using SABlock_init_divisibility [of 0 3 10 False False None iv_ones]
    SABlock_init_divisibility [of 0 2 8 False False "Some 3" iv_ones]
  by simp

text \<open>
  C2, as the spec states it, fails: with \<open>hidden_size = 10\<close>, \<open>num_heads = 3\<close> and an
  explicit \<open>dim_head = 4\<close> the constructor raises the divisibility error all the same.
\<close>

theorem SABlock_init_explicit_dim_head_indivisible:
  "SABlock_init 10 3 0 False False (Some 4) iv_ones
     = Inl (ValueError ''hidden size should be divisible by num_heads.'')"
  by (simp add: SABlock_init_def py_mod_def)

subsection \<open>The forward pass: shapes and failures\<close>

lemma input_rearrange_rank: "length (shape y) \<noteq> 3 \<Longrightarrow> input_rearrange l y = Inl EinopsError"
  by (auto simp: input_rearrange_def split: list.splits)

lemma qkv_split_bad_shape:
  assumes "in_features (qkv self) = n" "length (shape x) \<noteq> 3 \<or> last (shape x) \<noteq> n"
  shows "qkv_split self x
    = Inl (if shape x = [] \<or> last (shape x) \<noteq> n then RuntimeError else EinopsError)"
proof (cases "shape x = [] \<or> last (shape x) \<noteq> n")
  case True
  then show ?thesis using assms(1) by (auto simp: qkv_split_def Linear_forward_def)
next
  case False
  with assms(2) have len: "length (shape x) \<noteq> 3" by blast
  from False assms(1) obtain y where y: "Linear_forward (qkv self) x = Inr y"
    and shy: "shape y = butlast (shape x) @ [out_features (qkv self)]"
    by (simp add: Linear_forward_def)
  from False len have "length (shape y) \<noteq> 3" by (simp add: shy)
  then show ?thesis using False by (simp add: qkv_split_def y input_rearrange_rank)
qed

lemma forward_bad_shape:
  assumes "in_features (qkv self) = n" "length (shape x) \<noteq> 3 \<or> last (shape x) \<noteq> n"
  shows "forward self rnd x
    = Inl (if shape x = [] \<or> last (shape x) \<noteq> n then RuntimeError else EinopsError)"
  by (cases rnd) (simp add: forward_def qkv_split_bad_shape [OF assms])

lemma qkv_split_ok:
  assumes "0 < num_heads self" "in_features (qkv self) = n"
    "out_features (qkv self) = 3 * nat (num_heads self) * D" "shape x = [b, s, n]"
  shows "\<exists>q k v. qkv_split self x = Inr (q, k, v) \<and> shape q = [b, nat (num_heads self), s, D]
     \<and> shape k = [b, nat (num_heads self), s, D] \<and> shape v = [b, nat (num_heads self), s, D]"
  using assms
  by (simp add: qkv_split_def Linear_forward_def input_rearrange_def getitem_def Let_def)

lemma manual_att_mat_ok:
  assumes "scale self = PyFloat sc" "shape q = [b, l, s, d]" "shape k = [b, l, s, d]"
  shows "\<exists>a. manual_att_mat self q k = Inr (softmax_last a) \<and> shape a = [b, l, s, s]"
  using assms
  by (simp add: manual_att_mat_def einsum_blxd_blyd_def scale_float_def)
     (intro exI conjI, rule refl, simp)

lemma attend_ok:
  assumes "scale self = PyFloat sc" "shape q = [b, l, s, d]" "shape k = [b, l, s, d]"
    "shape v = [b, l, s, d]"
  shows "\<exists>y. (if use_flash_attention self then
              ebind (scale_float self) (\<lambda>s.
              scaled_dot_product_attention q k v s (dropout_rate self) keep_w)
            else
              ebind (manual_att_mat self q k) (\<lambda>att_mat0.
              let att_mat1 = dropout (drop_weights self) (training self) keep_w att_mat0
              in einsum_bhxy_bhyd att_mat1 v)) = Inr y \<and> shape y = [b, l, s, d]"
  using assms
  by (simp add: manual_att_mat_def einsum_blxd_blyd_def scale_float_def
      scaled_dot_product_attention_def transpose_last2_def matmul_def einsum_bhxy_bhyd_def Let_def)

lemma forward_ok_general:
  assumes "0 < num_heads self" "in_features (qkv self) = n"
    "out_features (qkv self) = 3 * nat (num_heads self) * D"
    "in_features (out_proj self) = nat (num_heads self) * D"
    "scale self = PyFloat sc" "shape x = [b, s, n]"
  shows "\<exists>y. forward self rnd x = Inr (y, self) \<and> shape y = [b, s, out_features (out_proj self)]"
proof -
  obtain q k v where qkv: "qkv_split self x = Inr (q, k, v)"
    and sh: "shape q = [b, nat (num_heads self), s, D]" "shape k = [b, nat (num_heads self), s, D]"
      "shape v = [b, nat (num_heads self), s, D]"
    using qkv_split_ok [OF assms(1,2,3,6)] by blast
  obtain kw ko where rnd: "rnd = (kw, ko)" by (cases rnd)
  obtain y where y: "(if use_flash_attention self then
              ebind (scale_float self) (\<lambda>s.
              scaled_dot_product_attention q k v s (dropout_rate self) kw)
            else
              ebind (manual_att_mat self q k) (\<lambda>att_mat0.
              let att_mat1 = dropout (drop_weights self) (training self) kw att_mat0
              in einsum_bhxy_bhyd att_mat1 v)) = Inr y"
    and shy: "shape y = [b, nat (num_heads self), s, D]"
    using attend_ok [OF assms(5) sh] by blast
  show ?thesis
    unfolding forward_def rnd
    by (simp add: qkv y shy out_rearrange_def Linear_forward_def assms(4) Let_def)
qed

lemma forward_keeps_self: "forward self rnd x = Inr (y, self') \<Longrightarrow> self' = self"
  by (cases rnd) (auto simp: forward_def ebind_eq_Inr Let_def)

text \<open>
  C5. For a block the constructor returned with \<open>num_heads > 0\<close>, on either execution
  path and in either mode, \<open>forward\<close> on an input of shape \<open>[b, s, hidden_size]\<close>
  returns a tensor of the same shape.
\<close>

theorem forward_output_shape:
  assumes "SABlock_init hs nh p qb sa dh iv = Inr blk0" and "0 < nh"
    and "shape x = [b, s, nat hs]"
  shows "\<exists>y blk'. forward (blk0\<lparr>use_flash_attention := fl, training := tr\<rparr>) rnd x = Inr (y, blk')
           \<and> shape y = shape x"
proof -
  note f = SABlock_init_fields [OF assms(1,2)]
  let ?B = "blk0\<lparr>use_flash_attention := fl, training := tr\<rparr>"
  have "\<exists>y. forward ?B rnd x = Inr (y, ?B) \<and> shape y = [b, s, out_features (out_proj ?B)]"
    by (rule forward_ok_general [where n = "nat hs" and D = "nat (dim_head blk0)"])
       (simp_all add: f assms(2,3))
  then show ?thesis by (auto simp: f assms(3))
qed

theorem forward_output_shape_witness:
  "\<exists>blk0. SABlock_init 8 2 0 False False None iv_ones = Inr blk0
     \<and> shape x_scenario = [1, 3, 8]
     \<and> (\<exists>y blk'. forward (blk0\<lparr>use_flash_attention := True, training := False\<rparr>)
                     (keep_all, keep_all) x_scenario = Inr (y, blk') \<and> shape y = [1, 3, 8])
     \<and> (\<exists>y blk'. forward (blk0\<lparr>use_flash_attention := False, training := True\<rparr>)
                     (keep_all, keep_all) x_scenario = Inr (y, blk') \<and> shape y = [1, 3, 8])"
proof -
  obtain blk0 where i: "SABlock_init 8 2 0 False False None iv_ones = Inr blk0"
    by (simp add: init_defs Let_def)
  have h: "(0::int) < 2" by simp
  have s: "shape x_scenario = [1, 3, nat 8]" by (simp add: x_scenario_def)
  show ?thesis
    using i s forward_output_shape [OF i h s, of True False "(keep_all, keep_all)"]
      forward_output_shape [OF i h s, of False True "(keep_all, keep_all)"]
    by simp
qed

text \<open>
  C9. For a block the constructor returned with \<open>num_heads > 0\<close>: an input whose rank is
  not 3 or whose last axis is not \<open>hidden_size\<close> long makes \<open>forward\<close> raise a shape
  error (\<open>RuntimeError\<close> from the \<open>qkv\<close> layer when the last axis is wrong or missing,
  \<open>EinopsError\<close> from the rearrangement otherwise), and on every input of rank 3 whose
  last axis is \<open>hidden_size\<close> long \<open>forward\<close> returns.
\<close>

theorem forward_shape_mismatch:
  assumes "SABlock_init hs nh p qb sa dh iv = Inr blk0" and "0 < nh"
  shows "(length (shape x) \<noteq> 3 \<or> last (shape x) \<noteq> nat hs \<longrightarrow>
           forward (blk0\<lparr>use_flash_attention := fl, training := tr\<rparr>) rnd x
             = Inl (if shape x = [] \<or> last (shape x) \<noteq> nat hs then RuntimeError else EinopsError))
       \<and> (length (shape x) = 3 \<and> last (shape x) = nat hs \<longrightarrow>
           (\<exists>y blk'. forward (blk0\<lparr>use_flash_attention := fl, training := tr\<rparr>) rnd x = Inr (y, blk')))"
proof (intro conjI impI)
  note f = SABlock_init_fields [OF assms]
  let ?B = "blk0\<lparr>use_flash_attention := fl, training := tr\<rparr>"
  {
    assume bad: "length (shape x) \<noteq> 3 \<or> last (shape x) \<noteq> nat hs"
    have "in_features (qkv ?B) = nat hs" by (simp add: f)
    from forward_bad_shape [OF this bad]
    show "forward ?B rnd x
       = Inl (if shape x = [] \<or> last (shape x) \<noteq> nat hs then RuntimeError else EinopsError)" .
  }
  {
    assume good: "length (shape x) = 3 \<and> last (shape x) = nat hs"
    then obtain b s c where sh: "shape x = [b, s, c]" using length_three by blast
    with good have sh': "shape x = [b, s, nat hs]" by simp
    have "\<exists>y. forward ?B rnd x = Inr (y, ?B) \<and> shape y = [b, s, out_features (out_proj ?B)]"
      by (rule forward_ok_general [where n = "nat hs" and D = "nat (dim_head blk0)"])
         (simp_all add: f assms(2) sh')
    then show "\<exists>y blk'. forward ?B rnd x = Inr (y, blk')" by blast
  }
qed

theorem forward_shape_mismatch_witness:
  "\<exists>blk0. SABlock_init 8 2 0 False False None iv_ones = Inr blk0
     \<and> forward (blk0\<lparr>use_flash_attention := False, training := False\<rparr>)
          (keep_all, keep_all) x_wrong_dim = Inl RuntimeError
     \<and> (\<exists>y blk'. forward (blk0\<lparr>use_flash_attention := False, training := False\<rparr>)
                     (keep_all, keep_all) x_scenario = Inr (y, blk'))"
proof -
  obtain blk0 where i: "SABlock_init 8 2 0 False False None iv_ones = Inr blk0"
    by (simp add: init_defs Let_def)
  have h: "(0::int) < 2" by simp
  show ?thesis
    using i forward_shape_mismatch [OF i h, of x_wrong_dim False False "(keep_all, keep_all)"]
      forward_shape_mismatch [OF i h, of x_scenario False False "(keep_all, keep_all)"]
    by (simp add: x_wrong_dim_def x_scenario_def)
qed

subsection \<open>The forward pass: values\<close>

lemma flash_eq_manual:
  assumes "shape q = [b, l, s, d]" "shape k = [b, l, s, d]" "shape v = [b, l, s, d]"
    "scale self = PyFloat sc"
  shows "ebind (scale_float self) (\<lambda>s. scaled_dot_product_attention q k v s 0 kw)
       = ebind (manual_att_mat self q k) (\<lambda>att_mat0.
              let att_mat1 = dropout 0 tr kw' att_mat0
              in einsum_bhxy_bhyd att_mat1 v)"
  using assms
  by (simp add: scale_float_def scaled_dot_product_attention_def transpose_last2_def matmul_def
      manual_att_mat_def einsum_blxd_blyd_def einsum_bhxy_bhyd_def Let_def mul_scalar_def
      softmax_last_def)

lemma forward_no_dropout:
  assumes "drop_weights self = 0" "drop_output self = 0" "dropout_rate self = 0"
  shows "map_sum id fst (forward (self\<lparr>training := tr\<rparr>) rnd x)
       = map_sum id fst (forward (self\<lparr>training := tr'\<rparr>) rnd' x)"
  using assms
  by (cases rnd; cases rnd'; cases "use_flash_attention self")
     (simp_all add: forward_def scaled_dot_product_attention_def map_sum_ebind Let_def split_def)

lemma forward_flash_eq_manual:
  assumes "0 < num_heads self" "in_features (qkv self) = n"
    "out_features (qkv self) = 3 * nat (num_heads self) * D"
    "scale self = PyFloat sc" "shape x = [b, s, n]"
    "drop_weights self = 0" "drop_output self = 0" "dropout_rate self = 0"
  shows "map_sum id fst (forward (self\<lparr>use_flash_attention := True\<rparr>) rnd x)
       = map_sum id fst (forward (self\<lparr>use_flash_attention := False\<rparr>) rnd' x)"
proof -
  obtain q k v where qkv: "qkv_split self x = Inr (q, k, v)"
    and sh: "shape q = [b, nat (num_heads self), s, D]" "shape k = [b, nat (num_heads self), s, D]"
      "shape v = [b, nat (num_heads self), s, D]"
    using qkv_split_ok [OF assms(1,2,3,5)] by blast
  obtain kw ko where rnd: "rnd = (kw, ko)" by (cases rnd)
  obtain kw' ko' where rnd': "rnd' = (kw', ko')" by (cases rnd')
  note e = flash_eq_manual [OF sh assms(4), of kw "training self" kw']
  show ?thesis
    unfolding forward_def rnd rnd'
    by (simp add: qkv assms(6,7,8) e map_sum_ebind Let_def)
qed

text \<open>
  C3. For a block the constructor returned with \<open>dropout_rate = 0\<close> and \<open>num_heads > 0\<close>,
  put in evaluation mode, and an input of shape \<open>[b, s, hidden_size]\<close>: the fast path and
  the manual path both return, and return the same tensor, whatever the initial values
  of the parameters.
\<close>

theorem flash_equals_manual:
  assumes "SABlock_init hs nh 0 qb sa dh iv = Inr blk0" and "0 < nh"
    and "shape x = [b, s, nat hs]"
  shows "\<exists>y b1 b2.
      forward (blk0\<lparr>training := False, use_flash_attention := True\<rparr>) rnd x = Inr (y, b1)
    \<and> forward (blk0\<lparr>training := False, use_flash_attention := False\<rparr>) rnd' x = Inr (y, b2)"
proof -
  note f = SABlock_init_fields [OF assms(1,2)]
  note r = SABlock_init_rates [OF assms(1)]
  let ?E = "blk0\<lparr>training := False\<rparr>"
  have ok: "\<exists>y. forward (?E\<lparr>use_flash_attention := fl\<rparr>) rn x = Inr (y, ?E\<lparr>use_flash_attention := fl\<rparr>)
      \<and> shape y = [b, s, out_features (out_proj (?E\<lparr>use_flash_attention := fl\<rparr>))]" for fl rn
    by (rule forward_ok_general [where n = "nat hs" and D = "nat (dim_head blk0)"])
       (simp_all add: f assms(2,3))
  from ok [of True rnd] obtain y1
    where y1: "forward (?E\<lparr>use_flash_attention := True\<rparr>) rnd x
                 = Inr (y1, ?E\<lparr>use_flash_attention := True\<rparr>)" by blast
  from ok [of False rnd'] obtain y2
    where y2: "forward (?E\<lparr>use_flash_attention := False\<rparr>) rnd' x
                 = Inr (y2, ?E\<lparr>use_flash_attention := False\<rparr>)" by blast
  have "map_sum id fst (forward (?E\<lparr>use_flash_attention := True\<rparr>) rnd x)
      = map_sum id fst (forward (?E\<lparr>use_flash_attention := False\<rparr>) rnd' x)"
    by (rule forward_flash_eq_manual [where n = "nat hs" and D = "nat (dim_head blk0)"])
       (simp_all add: f r assms(2,3))
  then have "y1 = y2" by (simp add: y1 y2)
  with y1 y2 show ?thesis by blast
qed

theorem flash_equals_manual_witness:
  "\<exists>blk0. SABlock_init 8 2 0 False False None iv_ones = Inr blk0
     \<and> shape x_scenario = [1, 3, 8]
     \<and> (\<exists>y b1 b2.
          forward (blk0\<lparr>training := False, use_flash_attention := True\<rparr>)
            (keep_none, keep_none) x_scenario = Inr (y, b1)
        \<and> forward (blk0\<lparr>training := False, use_flash_attention := False\<rparr>)
            (keep_all, keep_all) x_scenario = Inr (y, b2))"
proof -
  obtain blk0 where i: "SABlock_init 8 2 0 False False None iv_ones = Inr blk0"
    by (simp add: init_defs Let_def)
  have h: "(0::int) < 2" by simp
  have s: "shape x_scenario = [1, 3, nat 8]" by (simp add: x_scenario_def)
  show ?thesis
    using i s flash_equals_manual [where rnd = "(keep_none, keep_none)"
        and rnd' = "(keep_all, keep_all)", OF i h s]
    by simp
qed

text \<open>
  C6. For a block the constructor returned with \<open>dropout_rate = 0\<close>, on either path, the
  result of \<open>forward\<close> (the tensor returned or the error raised) is the same for any two
  random draws and in either mode: it depends on the parameters and the input only.
\<close>

theorem forward_deterministic:
  assumes "SABlock_init hs nh 0 qb sa dh iv = Inr blk0"
  shows "map_sum id fst (forward (blk0\<lparr>use_flash_attention := fl, training := tr\<rparr>) rnd x)
       = map_sum id fst (forward (blk0\<lparr>use_flash_attention := fl, training := tr'\<rparr>) rnd' x)"
  by (rule forward_no_dropout) (simp_all add: SABlock_init_rates [OF assms])

theorem forward_deterministic_witness:
  "\<exists>blk0. SABlock_init 8 2 0 False False None iv_ones = Inr blk0
     \<and> map_sum id fst (forward (blk0\<lparr>use_flash_attention := False, training := True\<rparr>)
                          (keep_none, keep_none) x_scenario)
       = map_sum id fst (forward (blk0\<lparr>use_flash_attention := False, training := True\<rparr>)
                          (keep_all, keep_all) x_scenario)"
proof -
  obtain blk0 where i: "SABlock_init 8 2 0 False False None iv_ones = Inr blk0"
    by (simp add: init_defs Let_def)
  show ?thesis
    using i forward_deterministic [where fl = False and tr = True and tr' = True
        and rnd = "(keep_none, keep_none)" and rnd' = "(keep_all, keep_all)" and x = x_scenario, OF i]
    by simp
qed

subsection \<open>The attention weights\<close>

lemma softmax_row_sum:
  assumes "shape t = [b, l, s, s']" and "0 < s'"
  shows "(\<Sum>yi<s'. elem (softmax_last t) [bi, li, xi, yi]) = 1"
proof -
  have pos: "0 < (\<Sum>j<s'. exp (elem t [bi, li, xi, j]))"
    using assms(2) by (intro sum_pos) auto
  have "(\<Sum>yi<s'. elem (softmax_last t) [bi, li, xi, yi])
      = (\<Sum>yi<s'. exp (elem t [bi, li, xi, yi])) / (\<Sum>j<s'. exp (elem t [bi, li, xi, j]))"
    by (simp add: softmax_last_def assms(1) sum_divide_distrib [symmetric])
  also have "\<dots> = 1" using pos by simp
  finally show ?thesis .
qed

text \<open>
  C7. For a block the constructor returned with \<open>num_heads > 0\<close> and an input of shape
  \<open>[b, s, hidden_size]\<close>, the attention weights of the manual path, after the softmax
  of line 89 and before the dropout of line 91, have shape \<open>[b, num_heads, s, s]\<close>, and
  for every batch index, head and query position they sum to 1 over the key axis.
\<close>

theorem attention_weights_sum_to_one:
  assumes "SABlock_init hs nh p qb sa dh iv = Inr blk0" and "0 < nh"
    and "shape x = [b, s, nat hs]"
  shows "\<exists>a. attention_weights (blk0\<lparr>use_flash_attention := False, training := tr\<rparr>) x = Inr a
    \<and> shape a = [b, nat nh, s, s]
    \<and> (\<forall>bi<b. \<forall>hi<nat nh. \<forall>xi<s. (\<Sum>yi<s. elem a [bi, hi, xi, yi]) = 1)"
proof -
  note f = SABlock_init_fields [OF assms(1,2)]
  let ?B = "blk0\<lparr>use_flash_attention := False, training := tr\<rparr>"
  have "\<exists>q k v. qkv_split ?B x = Inr (q, k, v) \<and> shape q = [b, nat (num_heads ?B), s, nat (dim_head blk0)]
     \<and> shape k = [b, nat (num_heads ?B), s, nat (dim_head blk0)]
     \<and> shape v = [b, nat (num_heads ?B), s, nat (dim_head blk0)]"
    by (rule qkv_split_ok [where n = "nat hs"]) (simp_all add: f assms(2,3))
  then obtain q k v where qkv: "qkv_split ?B x = Inr (q, k, v)"
    and sh: "shape q = [b, nat nh, s, nat (dim_head blk0)]"
      "shape k = [b, nat nh, s, nat (dim_head blk0)]"
    by (auto simp: f)
  have sc: "scale ?B = PyFloat (real_of_int (dim_head blk0) powr (- (1 / 2)))"
    by (simp add: f)
  from manual_att_mat_ok [OF sc sh] obtain t
    where m: "manual_att_mat ?B q k = Inr (softmax_last t)" and sht: "shape t = [b, nat nh, s, s]"
    by blast
  have a: "attention_weights ?B x = Inr (softmax_last t)"
    using qkv m by (simp add: attention_weights_def)
  have "(\<Sum>yi<s. elem (softmax_last t) [bi, hi, xi, yi]) = 1" if "xi < s" for bi hi xi
    using softmax_row_sum [OF sht] that by simp
  with a sht show ?thesis by simp
qed

theorem attention_weights_sum_to_one_witness:
  "\<exists>blk0. SABlock_init 8 2 0 False False None iv_ones = Inr blk0
     \<and> shape x_scenario = [1, 3, 8]
     \<and> (\<exists>a. attention_weights (blk0\<lparr>use_flash_attention := False, training := False\<rparr>) x_scenario
               = Inr a
          \<and> shape a = [1, 2, 3, 3]
          \<and> (\<Sum>yi<3. elem a [0, 1, 2, yi]) = 1)"
proof -
  obtain blk0 where i: "SABlock_init 8 2 0 False False None iv_ones = Inr blk0"
    by (simp add: init_defs Let_def)
  have h: "(0::int) < 2" by simp
  have s: "shape x_scenario = [1, 3, nat 8]" by (simp add: x_scenario_def)
  from attention_weights_sum_to_one [where tr = False, OF i h s] obtain a
    where a: "attention_weights (blk0\<lparr>use_flash_attention := False, training := False\<rparr>) x_scenario
               = Inr a" "shape a = [1, nat 2, 3, 3]"
      and r: "\<forall>bi<1. \<forall>hi<nat 2. \<forall>xi<3. (\<Sum>yi<3. elem a [bi, hi, xi, yi]) = 1"
    by blast
  from r have "(\<Sum>yi<3. elem a [0, 1, 2, yi]) = 1" by simp
  with i s a show ?thesis by simp
qed

subsection \<open>Where the code departs from its documentation\<close>

text \<open>
  C1. The docstring of \<open>save_attn\<close> reads "to make accessible the attention matrix", and
  the constructor keeps the flag and an empty \<open>att_mat\<close>; but \<open>forward\<close> never reads the
  flag and never assigns \<open>att_mat\<close>. For the block \<open>SABlock(1, 1, save_attn=True)\<close> and an
  input of shape \<open>[1, 1, 1]\<close>, \<open>forward\<close> on the manual path returns a tensor of shape
  \<open>[1, 1, 1]\<close>, and \<open>att_mat\<close> is afterwards still the empty tensor of shape \<open>[0]\<close>, not
  the weights of shape \<open>[1, 1, 1, 1]\<close>.
\<close>

theorem forward_leaves_att_mat_empty:
  "ebind (SABlock_init 1 1 0 False True None iv_ones) (\<lambda>self.
     ebind (forward self (keep_all, keep_all) x_ones) (\<lambda>(y, self').
     ebind (attention_weights self x_ones) (\<lambda>a.
     Inr (save_attn self', use_flash_attention self', shape y, shape a, shape (att_mat self')))))
   = Inr (True, False, [1, 1, 1], [1, 1, 1, 1], [0])"
  by (simp add: init_defs forward_defs attention_weights_def iv_ones_def x_ones_def
      torch_Tensor_def Let_def)

text \<open>
  C4. On the fast path the dropout rate is handed to
  \<open>scaled_dot_product_attention\<close> whatever the mode, and that function always applies
  it. For \<open>SABlock(1, 1, dropout_rate=0.5)\<close> with all weights 1, in evaluation mode, on the
  input \<open>[[[1]]]\<close>, with a draw that drops the attention weight: the fast path returns
  \<open>[[[0]]]\<close>, where the same block with rate 0 returns \<open>[[[1]]]\<close>; the manual path, whose
  dropout stages look at the mode, returns \<open>[[[1]]]\<close> with rate 0.5 too.
\<close>

theorem flash_path_drops_in_eval_mode:
  "ebind (SABlock_init 1 1 (1 / 2) False False None iv_ones) (\<lambda>blk.
     ebind (forward (blk\<lparr>use_flash_attention := True, training := False\<rparr>)
             (keep_none, keep_none) x_ones) (\<lambda>(y, self'). Inr (shape y, elem y [0, 0, 0])))
     = Inr ([1, 1, 1], 0)
   \<and> ebind (SABlock_init 1 1 0 False False None iv_ones) (\<lambda>blk.
     ebind (forward (blk\<lparr>use_flash_attention := True, training := False\<rparr>)
             (keep_none, keep_none) x_ones) (\<lambda>(y, self'). Inr (shape y, elem y [0, 0, 0])))
     = Inr ([1, 1, 1], 1)
   \<and> ebind (SABlock_init 1 1 (1 / 2) False False None iv_ones) (\<lambda>blk.
     ebind (forward (blk\<lparr>use_flash_attention := False, training := False\<rparr>)
             (keep_none, keep_none) x_ones) (\<lambda>(y, self'). Inr (shape y, elem y [0, 0, 0])))
     = Inr ([1, 1, 1], 1)"
  by (simp add: init_defs forward_defs iv_ones_def x_ones_def torch_Tensor_def Let_def
      keep_none_def)

text \<open>
  What does hold of the dropout stages in evaluation mode: on the manual path they are
  no-ops for every rate, so that the result is that of the same block with rate 0.
\<close>

theorem manual_path_eval_no_dropout:
  assumes "SABlock_init hs nh p qb sa dh iv = Inr blk0"
    and "SABlock_init hs nh 0 qb sa dh iv = Inr blk1"
  shows "map_sum id fst (forward (blk0\<lparr>use_flash_attention := False, training := False\<rparr>) rnd x)
       = map_sum id fst (forward (blk1\<lparr>use_flash_attention := False, training := False\<rparr>) rnd' x)"
proof -
  note a = SABlock_init_Inr [OF assms(1)] and b = SABlock_init_Inr [OF assms(2)]
  have d: "dim_head blk0 = dim_head blk1" by (simp add: a(6) b(6))
  show ?thesis
    by (cases rnd; cases rnd'; subst a(9); subst b(9))
       (simp add: forward_def qkv_split_def manual_att_mat_def scale_float_def d map_sum_ebind
         Let_def split_def)
qed

theorem manual_path_eval_no_dropout_witness:
  "\<exists>blk0 blk1. SABlock_init 8 2 (1 / 2) False False None iv_ones = Inr blk0
     \<and> SABlock_init 8 2 0 False False None iv_ones = Inr blk1
     \<and> map_sum id fst (forward (blk0\<lparr>use_flash_attention := False, training := False\<rparr>)
                          (keep_none, keep_none) x_scenario)
       = map_sum id fst (forward (blk1\<lparr>use_flash_attention := False, training := False\<rparr>)
                          (keep_all, keep_all) x_scenario)"
proof -
  obtain blk0 where i: "SABlock_init 8 2 (1 / 2) False False None iv_ones = Inr blk0"
    by (simp add: init_defs Let_def)
  obtain blk1 where j: "SABlock_init 8 2 0 False False None iv_ones = Inr blk1"
    by (simp add: init_defs Let_def)
  show ?thesis
    using i j manual_path_eval_no_dropout [where rnd = "(keep_none, keep_none)"
        and rnd' = "(keep_all, keep_all)" and x = x_scenario, OF i j]
    by simp
qed

end
